theory Spec2Isabelle
  imports Main "HOL-Library.AList" "HOL-Library.Word"
begin

section \<open>JavaScript values\<close>

text \<open>
  The values the handlers of \<^verbatim>\<open>server.js\<close> see are the results of \<^verbatim>\<open>JSON.parse\<close>
  on a request body, together with \<^verbatim>\<open>undefined\<close> (a property that is not there).
  A string is a list of code units; a \<open>char\<close> is a code unit below 256. \<open>Num n\<close> is the
  integer-valued Number \<open>sint n\<close>, from \<open>- (2 ^ 53)\<close> to \<open>2 ^ 53 - 1\<close>: there every
  integer is a Number of its own and prints as its decimal digits (numerals with a
  fraction or an exponent, and integers beyond that range, are not part of the value
  type). \<open>Obj\<close> holds the own properties of a parsed object, in order.
\<close>

datatype val =
    Undefined
  | Null
  | Bool bool
  | Num "54 word"
  | Str string
  | Arr "val list"
  | Obj "(string \<times> val) list"

datatype js_error = TypeError

text \<open>ToBoolean: what \<^verbatim>\<open>!x\<close>, \<^verbatim>\<open>x && y\<close> and \<^verbatim>\<open>if (x)\<close> test.\<close>

fun truthy :: "val \<Rightarrow> bool" where
  "truthy Undefined = False"
| "truthy Null = False"
| "truthy (Bool b) = b"
| "truthy (Num n) = (n \<noteq> 0)"
| "truthy (Str s) = (s \<noteq> [])"
| "truthy (Arr xs) = True"
| "truthy (Obj kvs) = True"

text \<open>
  Property read \<^verbatim>\<open>data.k\<close> on a receiver that is neither \<^verbatim>\<open>undefined\<close> nor
  \<^verbatim>\<open>null\<close>, for the keys the program reads from a body (\<^verbatim>\<open>name\<close>, \<^verbatim>\<open>email\<close>,
  \<^verbatim>\<open>age\<close>): an own property of a parsed object, \<^verbatim>\<open>undefined\<close> otherwise (no
  prototype of a parsed value has one of these keys).
\<close>

fun property :: "val \<Rightarrow> string \<Rightarrow> val" where
  "property (Obj kvs) k = (case map_of kvs k of Some v \<Rightarrow> v | None \<Rightarrow> Undefined)"
| "property v k = Undefined"

text \<open>\<^verbatim>\<open>Object.keys(data).length\<close>.\<close>

fun Object_keys_length :: "val \<Rightarrow> nat" where
  "Object_keys_length (Obj kvs) = length (remdups (map fst kvs))"
| "Object_keys_length (Arr xs) = length xs"
| "Object_keys_length (Str s) = length s"
| "Object_keys_length v = 0"

text \<open>
  Strict equality \<^verbatim>\<open>===\<close>: equal primitives of the same type; an array or an object
  parsed from a request is a fresh reference, never identical to a stored one.
\<close>

fun strict_eq :: "val \<Rightarrow> val \<Rightarrow> bool" where
  "strict_eq (Arr xs) w = False"
| "strict_eq (Obj kvs) w = False"
| "strict_eq v w = (v = w)"

subsection \<open>Strings\<close>

text \<open>WhiteSpace and LineTerminator code units below 256: TAB, LF, VT, FF, CR, SP, NBSP.\<close>

definition is_ws :: "char \<Rightarrow> bool" where
  "is_ws c = (of_char c \<in> {9, 10, 11, 12, 13, 32, 160 :: nat})"

text \<open>\<^verbatim>\<open>String.prototype.trim\<close>.\<close>

definition trim :: "string \<Rightarrow> string" where
  "trim s = rev (dropWhile is_ws (rev (dropWhile is_ws s)))"

text \<open>\<^verbatim>\<open>String.prototype.includes\<close> with a one-character needle.\<close>

definition String_includes :: "string \<Rightarrow> char \<Rightarrow> bool" where
  "String_includes s c = (c \<in> set s)"

text \<open>Decimal digits of a natural number, most significant first.\<close>

fun digits :: "nat \<Rightarrow> string" where
  "digits n = (if n < 10 then [char_of (48 + n)] else digits (n div 10) @ [char_of (48 + n mod 10)])"

declare digits.simps [simp del]

text \<open>
  Number::toString on an integer-valued Number below \<open>2 ^ 53\<close> in absolute value (or
  equal to \<open>- (2 ^ 53)\<close>): the decimal digits, after a minus sign when it is negative.
\<close>

definition Number_toString :: "54 word \<Rightarrow> string" where
  "Number_toString n =
     (if sint n < 0 then CHR ''-'' # digits (nat (- sint n)) else digits (nat (sint n)))"

text \<open>\<^verbatim>\<open>Array.prototype.join(',')\<close> on the already converted elements.\<close>

fun join :: "(js_error + string) list \<Rightarrow> js_error + string" where
  "join [] = Inr []"
| "join [x] = x"
| "join (x # y # ys) =
     (case x of Inl e \<Rightarrow> Inl e
      | Inr s \<Rightarrow> (case join (y # ys) of Inl e \<Rightarrow> Inl e | Inr r \<Rightarrow> Inr (s @ CHR '','' # r)))"

text \<open>
  ToString. An array joins its elements, \<^verbatim>\<open>null\<close> and \<^verbatim>\<open>undefined\<close> elements as
  the empty string. A parsed object prints as \<^verbatim>\<open>[object Object]\<close>, unless it has an
  own property \<^verbatim>\<open>toString\<close>: that one is not callable and shadows the inherited
  method, \<^verbatim>\<open>valueOf\<close> gives no primitive, and the conversion throws a TypeError.
\<close>

fun js_ToString :: "val \<Rightarrow> js_error + string" where
  "js_ToString Undefined = Inr ''undefined''"
| "js_ToString Null = Inr ''null''"
| "js_ToString (Bool b) = Inr (if b then ''true'' else ''false'')"
| "js_ToString (Num n) = Inr (Number_toString n)"
| "js_ToString (Str s) = Inr s"
| "js_ToString (Arr xs) =
     join (map (\<lambda>x. if x = Undefined \<or> x = Null then Inr [] else js_ToString x) xs)"
| "js_ToString (Obj kvs) =
     (if List.member (map fst kvs) ''toString'' then Inl TypeError else Inr ''[object Object]'')"

subsection \<open>parseInt\<close>

definition digit_value :: "char \<Rightarrow> nat option" where
  "digit_value c =
     (let n = (of_char c :: nat) in
      if 48 \<le> n \<and> n \<le> 57 then Some (n - 48)
      else if 97 \<le> n \<and> n \<le> 122 then Some (n - 87)
      else if 65 \<le> n \<and> n \<le> 90 then Some (n - 55)
      else None)"

definition is_digit :: "nat \<Rightarrow> char \<Rightarrow> bool" where
  "is_digit R c = (case digit_value c of None \<Rightarrow> False | Some d \<Rightarrow> d < R)"

definition radix_value :: "nat \<Rightarrow> string \<Rightarrow> nat" where
  "radix_value R Z = foldl (\<lambda>acc c. acc * R + (case digit_value c of None \<Rightarrow> 0 | Some d \<Rightarrow> d)) 0 Z"

text \<open>
  \<^verbatim>\<open>parseInt(string)\<close> with no radix, on the string: leading white space is skipped,
  a sign is read, a \<^verbatim>\<open>0x\<close> or \<^verbatim>\<open>0X\<close> prefix selects radix 16, and the longest prefix
  of digits is the value; no digit gives NaN, which is \<open>None\<close> here. The result is
  the mathematical integer: the rounding to a Number keeps NaN apart and keeps the
  sign, and \<open>-0 < 0\<close> is false as \<open>0 < 0\<close> is.
\<close>

definition parseInt_string :: "string \<Rightarrow> int option" where
  "parseInt_string inputString =
     (let S = dropWhile is_ws inputString;
          sign = (if S \<noteq> [] \<and> hd S = CHR ''-'' then - 1 else 1 :: int);
          S = (if S \<noteq> [] \<and> (hd S = CHR ''+'' \<or> hd S = CHR ''-'') then tl S else S);
          strip = (length S \<ge> 2 \<and> (take 2 S = ''0x'' \<or> take 2 S = ''0X''));
          R = (if strip then 16 else 10);
          S = (if strip then drop 2 S else S);
          Z = takeWhile (is_digit R) S
      in if Z = [] then None else Some (sign * int (radix_value R Z)))"

text \<open>\<^verbatim>\<open>parseInt(v)\<close>: the argument is converted with ToString first.\<close>

definition parseInt :: "val \<Rightarrow> js_error + int option" where
  "parseInt v = (case js_ToString v of Inl e \<Rightarrow> Inl e | Inr s \<Rightarrow> Inr (parseInt_string s))"

section \<open>The validator\<close>

text \<open>
  \<^verbatim>\<open>validateUserData(data, requireAll)\<close>, lines 78 to 103. The three blocks run in
  order on the growing list \<open>errors\<close>. A method call \<^verbatim>\<open>.trim()\<close> on a value that
  is not a string throws a TypeError: a number, a boolean and an array have no such
  method, and a property \<^verbatim>\<open>trim\<close> of a parsed object is never a function.
  \<^verbatim>\<open>.includes('@')\<close> is reached after \<^verbatim>\<open>.trim()\<close> has returned only, so on a string.
\<close>

definition name_check :: "val \<Rightarrow> bool \<Rightarrow> string list \<Rightarrow> js_error + string list" where
  "name_check nm requireAll errors =
     (if requireAll \<and> \<not> truthy nm then Inr (errors @ [''Name is required''])
      else if \<not> truthy nm then Inr errors
      else (case nm of
              Str s \<Rightarrow> if trim s = [] then Inr (errors @ [''Name cannot be empty'']) else Inr errors
            | _ \<Rightarrow> Inl TypeError))"

definition email_check :: "val \<Rightarrow> bool \<Rightarrow> string list \<Rightarrow> js_error + string list" where
  "email_check em requireAll errors =
     (if requireAll \<and> \<not> truthy em then Inr (errors @ [''Email is required''])
      else if \<not> truthy em then Inr errors
      else (case em of
              Str s \<Rightarrow>
                if trim s = [] then Inr (errors @ [''Email cannot be empty''])
                else if \<not> String_includes s CHR ''@'' then Inr (errors @ [''Invalid email format''])
                else Inr errors
            | _ \<Rightarrow> Inl TypeError))"

text \<open>\<^verbatim>\<open>isNaN(age) || age < 0\<close> on the result of \<^verbatim>\<open>parseInt\<close>.\<close>

definition isNaN_or_negative :: "int option \<Rightarrow> bool" where
  "isNaN_or_negative a = (case a of None \<Rightarrow> True | Some n \<Rightarrow> n < 0)"

definition age_check :: "val \<Rightarrow> string list \<Rightarrow> js_error + string list" where
  "age_check ag errors =
     (if ag \<noteq> Undefined \<and> ag \<noteq> Null then
        (case parseInt ag of
           Inl e \<Rightarrow> Inl e
         | Inr a \<Rightarrow>
             if isNaN_or_negative a then Inr (errors @ [''Age must be a positive number''])
             else Inr errors)
      else Inr errors)"

text \<open>Reading a property of \<^verbatim>\<open>undefined\<close> or \<^verbatim>\<open>null\<close> throws.\<close>

definition validateUserData :: "val \<Rightarrow> bool \<Rightarrow> js_error + string list" where
  "validateUserData data requireAll =
     (if data = Undefined \<or> data = Null then Inl TypeError
      else
        (case name_check (property data ''name'') requireAll [] of
           Inl e \<Rightarrow> Inl e
         | Inr errors \<Rightarrow>
             (case email_check (property data ''email'') requireAll errors of
                Inl e \<Rightarrow> Inl e
              | Inr errors \<Rightarrow> age_check (property data ''age'') errors)))"

section \<open>Users and the store\<close>

type_synonym timestamp = string

text \<open>
  Class \<^verbatim>\<open>User\<close>. \<^verbatim>\<open>name\<close>, \<^verbatim>\<open>email\<close> and \<^verbatim>\<open>age\<close> hold whatever value the
  handler passes; \<^verbatim>\<open>id\<close> is the string \<^verbatim>\<open>uuidv4()\<close> returned and the two time stamps
  are the strings \<^verbatim>\<open>new Date().toISOString()\<close> returned.
\<close>

record User =
  user_id :: string
  name :: val
  email :: val
  age :: val
  created_at :: timestamp
  updated_at :: timestamp

text \<open>A default parameter value \<^verbatim>\<open>= null\<close> replaces an argument that is \<^verbatim>\<open>undefined\<close>.\<close>

definition default_null :: "val \<Rightarrow> val" where
  "default_null v = (if v = Undefined then Null else v)"

text \<open>The constructor; \<open>uuid\<close>, \<open>now1\<close> and \<open>now2\<close> are what its three calls return.\<close>

definition User_new :: "string \<Rightarrow> timestamp \<Rightarrow> timestamp \<Rightarrow> val \<Rightarrow> val \<Rightarrow> val \<Rightarrow> User" where
  "User_new uuid now1 now2 nm em ag =
     \<lparr>user_id = uuid, name = nm, email = em, age = default_null ag,
      created_at = now1, updated_at = now2\<rparr>"

definition toDict :: "User \<Rightarrow> val" where
  "toDict u =
     Obj [(''id'', Str (user_id u)), (''name'', name u), (''email'', email u), (''age'', age u),
          (''created_at'', Str (created_at u)), (''updated_at'', Str (updated_at u))]"

text \<open>\<^verbatim>\<open>update(name = null, email = null, age = null)\<close>, lines 64 to 75.\<close>

definition update :: "timestamp \<Rightarrow> val \<Rightarrow> val \<Rightarrow> val \<Rightarrow> User \<Rightarrow> User" where
  "update now nm em ag u =
     (let nm = default_null nm; em = default_null em; ag = default_null ag;
          u = (if nm \<noteq> Null then u\<lparr>name := nm\<rparr> else u);
          u = (if em \<noteq> Null then u\<lparr>email := em\<rparr> else u);
          u = (if ag \<noteq> Null then u\<lparr>age := ag\<rparr> else u)
      in u\<lparr>updated_at := now\<rparr>)"

text \<open>
  \<^verbatim>\<open>const users = {}\<close>: the own properties of the object, keyed by id, in insertion
  order.
\<close>

type_synonym store = "(string \<times> User) list"

text \<open>
  \<^verbatim>\<open>users\<close> is an ordinary object, so \<^verbatim>\<open>users[userId]\<close> reads an own property
  first and then the properties of \<^verbatim>\<open>Object.prototype\<close>. Each of those is a
  function, or the prototype object itself for \<^verbatim>\<open>__proto__\<close>: a truthy value with no
  method \<^verbatim>\<open>toDict\<close> or \<^verbatim>\<open>update\<close>.
\<close>

definition Object_prototype_keys :: "string list" where
  "Object_prototype_keys =
     [''constructor'', ''__defineGetter__'', ''__defineSetter__'', ''hasOwnProperty'',
      ''__lookupGetter__'', ''__lookupSetter__'', ''isPrototypeOf'', ''propertyIsEnumerable'',
      ''toString'', ''valueOf'', ''__proto__'', ''toLocaleString'']"

datatype slot = Own User | Inherited | Missing

definition users_get :: "store \<Rightarrow> string \<Rightarrow> slot" where
  "users_get users userId =
     (case map_of users userId of
        Some user \<Rightarrow> Own user
      | None \<Rightarrow> if List.member Object_prototype_keys userId then Inherited else Missing)"

section \<open>The handlers\<close>

datatype response = Response (status: nat) (json: val)

definition error_body :: "string \<Rightarrow> val" where
  "error_body msg = Obj [(''error'', Str msg)]"

text \<open>\<^verbatim>\<open>!data || Object.keys(data).length === 0\<close>.\<close>

definition no_data :: "val \<Rightarrow> bool" where
  "no_data data = (if truthy data then Object_keys_length data = 0 else True)"

text \<open>
  A handler returns what it sent, or the error it threw, and the store as it left it.
  \<^verbatim>\<open>app.post('/users')\<close>, lines 105 to 126.
\<close>

definition post_users ::
  "string \<Rightarrow> timestamp \<Rightarrow> timestamp \<Rightarrow> val \<Rightarrow> store \<Rightarrow> (js_error + response) \<times> store" where
  "post_users uuid now1 now2 data users =
     (if no_data data then (Inr (Response 400 (error_body ''No data provided'')), users)
      else
        (case validateUserData data True of
           Inl e \<Rightarrow> (Inl e, users)
         | Inr errors \<Rightarrow>
             if length errors > 0 then
               (Inr (Response 400 (Obj [(''errors'', Arr (map Str errors))])), users)
             else if list_ex (\<lambda>user. strict_eq (email user) (property data ''email'')) (map snd users)
             then (Inr (Response 409 (error_body ''Email already exists'')), users)
             else
               (let user = User_new uuid now1 now2 (property data ''name'')
                             (property data ''email'') (property data ''age'')
                in (Inr (Response 201 (toDict user)), AList.update (user_id user) user users))))"

text \<open>\<^verbatim>\<open>app.get('/users')\<close> and \<^verbatim>\<open>app.get('/users/:userId')\<close>.\<close>

definition get_users :: "store \<Rightarrow> (js_error + response) \<times> store" where
  "get_users users = (Inr (Response 200 (Arr (map (\<lambda>user. toDict user) (map snd users)))), users)"

definition get_user :: "string \<Rightarrow> store \<Rightarrow> (js_error + response) \<times> store" where
  "get_user userId users =
     (case users_get users userId of
        Missing \<Rightarrow> (Inr (Response 404 (error_body ''User not found'')), users)
      | Inherited \<Rightarrow> (Inl TypeError, users)
      | Own user \<Rightarrow> (Inr (Response 200 (toDict user)), users))"

text \<open>\<^verbatim>\<open>app.put('/users/:userId')\<close>, lines 144 to 172.\<close>

definition put_user ::
  "string \<Rightarrow> timestamp \<Rightarrow> val \<Rightarrow> store \<Rightarrow> (js_error + response) \<times> store" where
  "put_user userId now data users =
     (let user = users_get users userId in
      if user = Missing then (Inr (Response 404 (error_body ''User not found'')), users)
      else if no_data data then (Inr (Response 400 (error_body ''No data provided'')), users)
      else
        (case validateUserData data False of
           Inl e \<Rightarrow> (Inl e, users)
         | Inr errors \<Rightarrow>
             if length errors > 0 then
               (Inr (Response 400 (Obj [(''errors'', Arr (map Str errors))])), users)
             else if truthy (property data ''email'') \<and>
                     list_ex (\<lambda>(uid, u). uid \<noteq> userId \<and> strict_eq (email u) (property data ''email''))
                       users
             then (Inr (Response 409 (error_body ''Email already exists'')), users)
             else
               (case user of
                  Own u \<Rightarrow>
                    (let u = update now (property data ''name'') (property data ''email'')
                               (property data ''age'') u
                     in (Inr (Response 200 (toDict u)), AList.update userId u users))
                | _ \<Rightarrow> (Inl TypeError, users))))"

text \<open>\<^verbatim>\<open>app.delete('/users/:userId')\<close>; \<^verbatim>\<open>delete\<close> removes an own property only.\<close>

definition delete_user :: "string \<Rightarrow> store \<Rightarrow> (js_error + response) \<times> store" where
  "delete_user userId users =
     (if users_get users userId = Missing
      then (Inr (Response 404 (error_body ''User not found'')), users)
      else (Inr (Response 200 (Obj [(''message'', Str ''User deleted successfully'')])),
            AList.delete userId users))"

text \<open>
  A request, with the values the environment gives while it is handled: the new id
  and the clock readings. \<open>Other\<close> is any request no route matches.
\<close>

datatype request =
    POST_users string timestamp timestamp val
  | GET_users
  | GET_user string
  | PUT_user string timestamp val
  | DELETE_user string
  | Other

definition route :: "request \<Rightarrow> store \<Rightarrow> (js_error + response) \<times> store" where
  "route req users =
     (case req of
        POST_users uuid now1 now2 data \<Rightarrow> post_users uuid now1 now2 data users
      | GET_users \<Rightarrow> get_users users
      | GET_user userId \<Rightarrow> get_user userId users
      | PUT_user userId now data \<Rightarrow> put_user userId now data users
      | DELETE_user userId \<Rightarrow> delete_user userId users
      | Other \<Rightarrow> (Inr (Response 404 (error_body ''Endpoint not found'')), users))"

text \<open>The error middleware, lines 190 to 193, answers what a handler threw.\<close>

definition serve :: "request \<Rightarrow> store \<Rightarrow> response \<times> store" where
  "serve req users =
     (case route req users of
        (Inl err, users') \<Rightarrow> (Response 500 (error_body ''Internal server error''), users')
      | (Inr res, users') \<Rightarrow> (res, users'))"

text \<open>A sequence of requests, one after the other, from a given store.\<close>

fun serve_all :: "request list \<Rightarrow> store \<Rightarrow> response list \<times> store" where
  "serve_all [] users = ([], users)"
| "serve_all (req # reqs) users =
     (case serve req users of
        (res, users') \<Rightarrow> (case serve_all reqs users' of (ress, users'') \<Rightarrow> (res # ress, users'')))"

section \<open>Properties of parseInt\<close>










section \<open>Properties of the validator\<close>

text \<open>
  Each block appends to the list it is given, so its own messages are those it gives
  on the empty list.
\<close>

lemma name_check_append:
  "name_check nm r errors = Inr es \<longleftrightarrow> (\<exists>ns. name_check nm r [] = Inr ns \<and> es = errors @ ns)"
  by (auto simp: name_check_def split: val.splits if_splits)

lemma email_check_append:
  "email_check em r errors = Inr es \<longleftrightarrow> (\<exists>ns. email_check em r [] = Inr ns \<and> es = errors @ ns)"
  by (auto simp: email_check_def split: val.splits if_splits)

lemma age_check_append:
  "age_check ag errors = Inr es \<longleftrightarrow> (\<exists>ns. age_check ag [] = Inr ns \<and> es = errors @ ns)"
  by (auto simp: age_check_def split: sum.splits if_splits)

lemma validateUserData_split:
  "validateUserData data r = Inr errors \<longleftrightarrow>
     data \<noteq> Undefined \<and> data \<noteq> Null \<and>
     (\<exists>ns es as.
        name_check (property data ''name'') r [] = Inr ns \<and>
        email_check (property data ''email'') r [] = Inr es \<and>
        age_check (property data ''age'') [] = Inr as \<and> errors = ns @ es @ as)"
proof (cases "data = Undefined \<or> data = Null")
  case True
  then show ?thesis by (auto simp: validateUserData_def)
next
  case False
  show ?thesis
  proof (cases "name_check (property data ''name'') r []")
    case (Inl e)
    with False show ?thesis by (simp add: validateUserData_def)
  next
    case (Inr ns)
    show ?thesis
    proof (cases "email_check (property data ''email'') r []")
      case (Inl e)
      then have "\<And>x. email_check (property data ''email'') r ns \<noteq> Inr x"
        using email_check_append [of _ r ns] by auto
      then obtain e' where "email_check (property data ''email'') r ns = Inl e'"
        by (cases "email_check (property data ''email'') r ns") auto
      with False Inr Inl show ?thesis by (simp add: validateUserData_def)
    next
      case es: (Inr es)
      then have e: "email_check (property data ''email'') r ns = Inr (ns @ es)"
        using email_check_append [of _ r ns] by auto
      show ?thesis
        using False Inr es e age_check_append [of "property data ''age''" "ns @ es" errors]
        by (auto simp: validateUserData_def)
    qed
  qed
qed

lemma name_check_messages:
  "name_check nm r [] = Inr ns \<Longrightarrow> set ns \<subseteq> {''Name is required'', ''Name cannot be empty''}"
  by (auto simp: name_check_def split: val.splits if_splits)

lemma email_check_messages:
  "email_check em r [] = Inr es \<Longrightarrow>
     set es \<subseteq> {''Email is required'', ''Email cannot be empty'', ''Invalid email format''}"
  by (auto simp: email_check_def split: val.splits if_splits)

lemma age_check_messages:
  "age_check ag [] = Inr as \<Longrightarrow> set as \<subseteq> {''Age must be a positive number''}"
  by (auto simp: age_check_def split: sum.splits if_splits)




lemma validateUserData_returns:
  assumes "data \<noteq> Undefined" and "data \<noteq> Null"
    and "property data ''name'' \<in> {Undefined, Null} \<or> (\<exists>s. property data ''name'' = Str s)"
    and "property data ''email'' \<in> {Undefined, Null} \<or> (\<exists>s. property data ''email'' = Str s)"
    and "property data ''age'' \<in> {Undefined, Null} \<or> (\<exists>s. property data ''age'' = Str s) \<or>
         (\<exists>n. property data ''age'' = Num n)"
  shows "\<exists>errors. validateUserData data r = Inr errors"
proof -
  have "\<exists>ns. name_check (property data ''name'') r [] = Inr ns"
    using assms(3) by (auto simp: name_check_def)
  moreover have "\<exists>es. email_check (property data ''email'') r [] = Inr es"
    using assms(4) by (auto simp: email_check_def)
  moreover have "\<exists>as. age_check (property data ''age'') [] = Inr as"
    using assms(5) by (auto simp: age_check_def parseInt_def)
  ultimately show ?thesis using assms(1,2) unfolding validateUserData_split by blast
qed

text \<open>
  C3, as the code has it. For both modes, on a payload the validator returns a list
  for: a name that is a non-empty string and trims to the empty string is reported as
  "Name cannot be empty", and such an email as "Email cannot be empty". With
  \<open>requireAll\<close>, a name or email that is the empty string is reported as "Name is
  required" or "Email is required" and not as "cannot be empty".
\<close>

theorem validateUserData_whitespace_only:
  assumes "validateUserData data requireAll = Inr errors"
  shows "(property data ''name'' = Str s \<and> s \<noteq> [] \<and> trim s = [] \<longrightarrow>
            ''Name cannot be empty'' \<in> set errors) \<and>
         (property data ''email'' = Str s \<and> s \<noteq> [] \<and> trim s = [] \<longrightarrow>
            ''Email cannot be empty'' \<in> set errors) \<and>
         (requireAll \<and> property data ''name'' = Str [] \<longrightarrow>
            ''Name is required'' \<in> set errors \<and> ''Name cannot be empty'' \<notin> set errors) \<and>
         (requireAll \<and> property data ''email'' = Str [] \<longrightarrow>
            ''Email is required'' \<in> set errors \<and> ''Email cannot be empty'' \<notin> set errors)"
proof -
  from assms obtain ns es as where
    n: "name_check (property data ''name'') requireAll [] = Inr ns" and
    e: "email_check (property data ''email'') requireAll [] = Inr es" and
    a: "age_check (property data ''age'') [] = Inr as" and errs: "errors = ns @ es @ as"
    unfolding validateUserData_split by blast
  have nes: "''Name cannot be empty'' \<notin> set es" "''Name cannot be empty'' \<notin> set as"
    "''Email cannot be empty'' \<notin> set ns" "''Email cannot be empty'' \<notin> set as"
    using name_check_messages [OF n] email_check_messages [OF e] age_check_messages [OF a]
    by auto
  have "property data ''name'' = Str s \<Longrightarrow> s \<noteq> [] \<Longrightarrow> trim s = [] \<Longrightarrow>
          ''Name cannot be empty'' \<in> set ns"
    using n by (auto simp: name_check_def split: if_splits)
  moreover have "property data ''email'' = Str s \<Longrightarrow> s \<noteq> [] \<Longrightarrow> trim s = [] \<Longrightarrow>
          ''Email cannot be empty'' \<in> set es"
    using e by (auto simp: email_check_def split: if_splits)
  moreover have "requireAll \<Longrightarrow> property data ''name'' = Str [] \<Longrightarrow> ns = [''Name is required'']"
    using n by (auto simp: name_check_def)
  moreover have "requireAll \<Longrightarrow> property data ''email'' = Str [] \<Longrightarrow> es = [''Email is required'']"
    using e by (auto simp: email_check_def)
  ultimately show ?thesis using errs nes by auto
qed

text \<open>
  Witness for C3: the partial payload whose name and email are two spaces each.
\<close>

theorem validateUserData_whitespace_only_witness:
  "validateUserData (Obj [(''name'', Str ''  ''), (''email'', Str ''  '')]) False =
     Inr [''Name cannot be empty'', ''Email cannot be empty''] \<and>
   property (Obj [(''name'', Str ''  ''), (''email'', Str ''  '')]) ''name'' = Str ''  '' \<and>
   trim ''  '' = [] \<and>
   ''Name cannot be empty'' \<in> set [''Name cannot be empty'', ''Email cannot be empty'']"
proof -
  have v: "validateUserData (Obj [(''name'', Str ''  ''), (''email'', Str ''  '')]) False =
             Inr [''Name cannot be empty'', ''Email cannot be empty'']"
    by code_simp
  have t: "trim ''  '' = []" by code_simp
  from validateUserData_whitespace_only [OF v, of "''  ''"] v t show ?thesis by simp
qed

text \<open>
  Counterexample to C3 as stated: a name that is there and is the empty string trims to
  the empty string, yet in partial mode the validator returns no error at all, and with
  \<open>requireAll\<close> it returns "Name is required" only.
\<close>

theorem validateUserData_empty_string_counterexample:
  "property (Obj [(''name'', Str []), (''email'', Str ''a@b.c'')]) ''name'' = Str [] \<and>
   trim [] = [] \<and>
   validateUserData (Obj [(''name'', Str []), (''email'', Str ''a@b.c'')]) False = Inr [] \<and>
   validateUserData (Obj [(''name'', Str []), (''email'', Str ''a@b.c'')]) True =
     Inr [''Name is required'']"
  by code_simp









text \<open>
  C8, as the code has it. The validator returns a list exactly when each of the name,
  email and age checks, run on its own field alone, returns its messages, and the list
  is then all of them together, in that order: no check is skipped because another
  one reported an error. When one of the checks throws, the validator throws.
\<close>

theorem validateUserData_collects_all:
  "validateUserData data requireAll = Inr errors \<longleftrightarrow>
     data \<noteq> Undefined \<and> data \<noteq> Null \<and>
     (\<exists>ns es as.
        name_check (property data ''name'') requireAll [] = Inr ns \<and>
        email_check (property data ''email'') requireAll [] = Inr es \<and>
        age_check (property data ''age'') [] = Inr as \<and>
        errors = ns @ es @ as)"
  by (rule validateUserData_split)

text \<open>
  Witness for C8: no name, an email without \<^verbatim>\<open>@\<close> and a negative age give all three
  messages with \<open>requireAll\<close>.
\<close>

theorem validateUserData_collects_all_witness:
  "validateUserData (Obj [(''email'', Str ''ann.x.com''), (''age'', Num (- 1))]) True =
     Inr [''Name is required'', ''Invalid email format'', ''Age must be a positive number''] \<and>
   (\<exists>ns es as.
      name_check (property (Obj [(''email'', Str ''ann.x.com''), (''age'', Num (- 1))]) ''name'')
        True [] = Inr ns \<and>
      email_check (property (Obj [(''email'', Str ''ann.x.com''), (''age'', Num (- 1))]) ''email'')
        True [] = Inr es \<and>
      age_check (property (Obj [(''email'', Str ''ann.x.com''), (''age'', Num (- 1))]) ''age'') [] =
        Inr as \<and>
      [''Name is required'', ''Invalid email format'', ''Age must be a positive number''] =
        ns @ es @ as)"
proof -
  have v: "validateUserData (Obj [(''email'', Str ''ann.x.com''), (''age'', Num (- 1))]) True =
     Inr [''Name is required'', ''Invalid email format'', ''Age must be a positive number'']"
    by code_simp
  from validateUserData_collects_all [THEN iffD1, OF v] v show ?thesis by blast
qed

text \<open>
  Counterexample to C8 as stated: with the name 5, the email without \<^verbatim>\<open>@\<close> and the
  negative age, the email and age checks each have a message, and the validator
  returns none: it throws on the name.
\<close>

theorem validateUserData_throw_counterexample:
  "validateUserData (Obj [(''name'', Num 5), (''email'', Str ''ann.x.com''), (''age'', Num (- 1))])
     True = Inl TypeError \<and>
   email_check
     (property (Obj [(''name'', Num 5), (''email'', Str ''ann.x.com''), (''age'', Num (- 1))])
        ''email'') True [] = Inr [''Invalid email format''] \<and>
   age_check
     (property (Obj [(''name'', Num 5), (''email'', Str ''ann.x.com''), (''age'', Num (- 1))])
        ''age'') [] = Inr [''Age must be a positive number'']"
  by code_simp

section \<open>Properties of the handlers\<close>

text \<open>A handler that changes the store answers 200 or 201.\<close>

lemma post_users_store:
  "post_users uuid now1 now2 data users = (r, users') \<Longrightarrow>
     users' = users \<or> (\<exists>j. r = Inr (Response 201 j))"
  by (auto simp: post_users_def Let_def split: sum.splits if_splits)

lemma put_user_store:
  "put_user userId now data users = (r, users') \<Longrightarrow>
     users' = users \<or> (\<exists>j. r = Inr (Response 200 j))"
  by (auto simp: put_user_def Let_def split: sum.splits if_splits slot.splits)

lemma delete_user_store:
  "delete_user userId users = (r, users') \<Longrightarrow>
     users' = users \<or> (\<exists>j. r = Inr (Response 200 j))"
  by (auto simp: delete_user_def split: if_splits)

lemma get_user_store: "get_user userId users = (r, users') \<Longrightarrow> users' = users"
  by (auto simp: get_user_def split: slot.splits)

lemma route_store:
  assumes "route req users = (r, users')"
  shows "users' = users \<or> (\<exists>j. r = Inr (Response 200 j)) \<or> (\<exists>j. r = Inr (Response 201 j))"
proof (cases req)
  case (POST_users uuid now1 now2 data)
  with assms have "post_users uuid now1 now2 data users = (r, users')" by (simp add: route_def)
  from post_users_store [OF this] show ?thesis by blast
next
  case GET_users
  with assms show ?thesis by (auto simp: route_def get_users_def)
next
  case (GET_user userId)
  with assms have "get_user userId users = (r, users')" by (simp add: route_def)
  from get_user_store [OF this] show ?thesis by blast
next
  case (PUT_user userId now data)
  with assms have "put_user userId now data users = (r, users')" by (simp add: route_def)
  from put_user_store [OF this] show ?thesis by blast
next
  case (DELETE_user userId)
  with assms have "delete_user userId users = (r, users')" by (simp add: route_def)
  from delete_user_store [OF this] show ?thesis by blast
next
  case Other
  with assms show ?thesis by (auto simp: route_def)
qed

text \<open>
  C4. A request answered with 400 (no data, or validation errors), 404 or 409 leaves
  the store exactly as it was: the list of records, with every field of every record,
  is the same.
\<close>

theorem rejected_request_store_unchanged:
  assumes "serve req users = (res, users')" and "status res \<in> {400, 404, 409}"
  shows "users' = users"
proof (cases "route req users")
  case (Pair r s)
  from route_store [OF Pair] assms Pair show ?thesis
    by (cases r) (auto simp: serve_def)
qed

text \<open>
  Witness for C4: a second POST with the email of a stored user is answered 409 and
  the store still holds that one user, unchanged.
\<close>

theorem rejected_request_store_unchanged_witness:
  "serve (POST_users ''6ec0bd7f-11c0-43da-975e-2a8ad9ebae0b'' ''2024-05-01T10:00:05.000Z''
            ''2024-05-01T10:00:05.000Z'' (Obj [(''name'', Str ''Bo2''), (''email'', Str ''bo@x.com'')]))
     [(''1b9d6bcd-bbfd-4b2d-9b5d-ab8dfbbd4bed'',
       \<lparr>user_id = ''1b9d6bcd-bbfd-4b2d-9b5d-ab8dfbbd4bed'', name = Str ''Bo'',
        email = Str ''bo@x.com'', age = Null, created_at = ''2024-05-01T10:00:00.000Z'',
        updated_at = ''2024-05-01T10:00:00.000Z''\<rparr>)]
   = (Response 409 (Obj [(''error'', Str ''Email already exists'')]),
      [(''1b9d6bcd-bbfd-4b2d-9b5d-ab8dfbbd4bed'',
        \<lparr>user_id = ''1b9d6bcd-bbfd-4b2d-9b5d-ab8dfbbd4bed'', name = Str ''Bo'',
         email = Str ''bo@x.com'', age = Null, created_at = ''2024-05-01T10:00:00.000Z'',
         updated_at = ''2024-05-01T10:00:00.000Z''\<rparr>)])"
proof -
  let ?users = "[(''1b9d6bcd-bbfd-4b2d-9b5d-ab8dfbbd4bed'',
       \<lparr>user_id = ''1b9d6bcd-bbfd-4b2d-9b5d-ab8dfbbd4bed'', name = Str ''Bo'',
        email = Str ''bo@x.com'', age = Null, created_at = ''2024-05-01T10:00:00.000Z'',
        updated_at = ''2024-05-01T10:00:00.000Z''\<rparr>)]"
  let ?req = "POST_users ''6ec0bd7f-11c0-43da-975e-2a8ad9ebae0b'' ''2024-05-01T10:00:05.000Z''
            ''2024-05-01T10:00:05.000Z'' (Obj [(''name'', Str ''Bo2''), (''email'', Str ''bo@x.com'')])"
  have f: "fst (serve ?req ?users) = Response 409 (Obj [(''error'', Str ''Email already exists'')])"
    by code_simp
  have e: "serve ?req ?users = (fst (serve ?req ?users), snd (serve ?req ?users))" by simp
  have "status (fst (serve ?req ?users)) \<in> {400, 404, 409}" using f by simp
  from rejected_request_store_unchanged [OF e this] f show ?thesis
    by (metis prod.collapse)
qed

text \<open>The body \<^verbatim>\<open>{age: 5}\<close> passes the partial validation.\<close>

lemma validateUserData_age_5: "validateUserData (Obj [(''age'', Num 5)]) False = Inr []"
  by code_simp

text \<open>
  C5. On a stored user, PUT with the body \<^verbatim>\<open>{age: 5}\<close> is answered 200 with the
  updated record; the stored record then has age 5 and the clock reading of the request
  as \<^verbatim>\<open>updated_at\<close>, and its name, email, id and \<^verbatim>\<open>created_at\<close> are what they were.
\<close>

theorem put_age_only_frame:
  assumes "map_of users userId = Some u"
  shows "\<exists>u' users'.
           serve (PUT_user userId now (Obj [(''age'', Num 5)])) users =
             (Response 200 (toDict u'), users') \<and>
           map_of users' userId = Some u' \<and>
           age u' = Num 5 \<and> updated_at u' = now \<and>
           name u' = name u \<and> email u' = email u \<and> user_id u' = user_id u \<and>
           created_at u' = created_at u"
proof -
  let ?u = "u\<lparr>age := Num 5, updated_at := now\<rparr>"
  have g: "users_get users userId = Own u" using assms by (simp add: users_get_def)
  have "update now (property (Obj [(''age'', Num 5)]) ''name'')
          (property (Obj [(''age'', Num 5)]) ''email'')
          (property (Obj [(''age'', Num 5)]) ''age'') u = ?u"
    by (simp add: update_def default_null_def)
  then have "put_user userId now (Obj [(''age'', Num 5)]) users =
          (Inr (Response 200 (toDict ?u)), AList.update userId ?u users)"
    using g validateUserData_age_5 by (simp add: put_user_def no_data_def Let_def)
  then have "serve (PUT_user userId now (Obj [(''age'', Num 5)])) users =
          (Response 200 (toDict ?u), AList.update userId ?u users)"
    by (simp add: serve_def route_def)
  moreover have "map_of (AList.update userId ?u users) userId = Some ?u"
    by (simp add: update_conv')
  ultimately show ?thesis
    by (intro exI [of _ ?u] exI [of _ "AList.update userId ?u users"]) simp
qed

text \<open>
  Witness for C5: the stored user Bo, 30 years old, after PUT \<^verbatim>\<open>{age: 5}\<close>.
\<close>

theorem put_age_only_frame_witness:
  "map_of [(''1b9d6bcd-bbfd-4b2d-9b5d-ab8dfbbd4bed'',
       \<lparr>user_id = ''1b9d6bcd-bbfd-4b2d-9b5d-ab8dfbbd4bed'', name = Str ''Bo'',
        email = Str ''bo@x.com'', age = Num 30, created_at = ''2024-05-01T10:00:00.000Z'',
        updated_at = ''2024-05-01T10:00:00.000Z''\<rparr>)] ''1b9d6bcd-bbfd-4b2d-9b5d-ab8dfbbd4bed''
   = Some \<lparr>user_id = ''1b9d6bcd-bbfd-4b2d-9b5d-ab8dfbbd4bed'', name = Str ''Bo'',
        email = Str ''bo@x.com'', age = Num 30, created_at = ''2024-05-01T10:00:00.000Z'',
        updated_at = ''2024-05-01T10:00:00.000Z''\<rparr> \<and>
   (\<exists>u' users'.
      serve (PUT_user ''1b9d6bcd-bbfd-4b2d-9b5d-ab8dfbbd4bed'' ''2024-05-01T10:07:00.000Z''
               (Obj [(''age'', Num 5)]))
        [(''1b9d6bcd-bbfd-4b2d-9b5d-ab8dfbbd4bed'',
          \<lparr>user_id = ''1b9d6bcd-bbfd-4b2d-9b5d-ab8dfbbd4bed'', name = Str ''Bo'',
           email = Str ''bo@x.com'', age = Num 30, created_at = ''2024-05-01T10:00:00.000Z'',
           updated_at = ''2024-05-01T10:00:00.000Z''\<rparr>)]
        = (Response 200 (toDict u'), users') \<and>
      map_of users' ''1b9d6bcd-bbfd-4b2d-9b5d-ab8dfbbd4bed'' = Some u' \<and>
      age u' = Num 5 \<and> updated_at u' = ''2024-05-01T10:07:00.000Z'' \<and>
      name u' = Str ''Bo'' \<and> email u' = Str ''bo@x.com'' \<and>
      user_id u' = ''1b9d6bcd-bbfd-4b2d-9b5d-ab8dfbbd4bed'' \<and>
      created_at u' = ''2024-05-01T10:00:00.000Z'')"
proof -
  let ?u = "\<lparr>user_id = ''1b9d6bcd-bbfd-4b2d-9b5d-ab8dfbbd4bed'', name = Str ''Bo'',
        email = Str ''bo@x.com'', age = Num 30, created_at = ''2024-05-01T10:00:00.000Z'',
        updated_at = ''2024-05-01T10:00:00.000Z''\<rparr>"
  have m: "map_of [(''1b9d6bcd-bbfd-4b2d-9b5d-ab8dfbbd4bed'', ?u)]
             ''1b9d6bcd-bbfd-4b2d-9b5d-ab8dfbbd4bed'' = Some ?u"
    by simp
  from put_age_only_frame [OF m, of "''2024-05-01T10:07:00.000Z''"] m show ?thesis by simp
qed

text \<open>Ann's payload passes the full validation, with the age 0 and with no age.\<close>

lemma validateUserData_ann:
  "validateUserData (Obj [(''name'', Str ''Ann''), (''email'', Str ''ann@x.com''), (''age'', Num 0)])
     True = Inr []"
  by code_simp

lemma validateUserData_ann_no_age:
  "validateUserData (Obj [(''name'', Str ''Ann''), (''email'', Str ''ann@x.com'')]) True = Inr []"
  by code_simp

lemma no_stored_email:
  assumes "\<forall>user \<in> set (map snd users). email user \<noteq> Str em"
  shows "\<not> list_ex (\<lambda>user. strict_eq (email user) (Str em)) (map snd users)"
proof
  assume "list_ex (\<lambda>user. strict_eq (email user) (Str em)) (map snd users)"
  then obtain v where v: "v \<in> set (map snd users)" "strict_eq (email v) (Str em)"
    unfolding list_ex_iff by blast
  then have "email v = Str em" by (cases "email v") auto
  with assms v show False by blast
qed

text \<open>
  C7. Where no stored user has the email \<^verbatim>\<open>ann@x.com\<close>, POST with the body
  \<^verbatim>\<open>{"name":"Ann","email":"ann@x.com","age":0}\<close> is answered 201, the body of the
  answer has age 0 and the record is stored with age 0. The same request without an
  age stores \<^verbatim>\<open>null\<close>, which is another value.
\<close>

theorem post_age_zero:
  assumes "\<forall>user \<in> set (map snd users). email user \<noteq> Str ''ann@x.com''"
  shows "\<exists>user user0.
           serve (POST_users uuid now1 now2
                    (Obj [(''name'', Str ''Ann''), (''email'', Str ''ann@x.com''), (''age'', Num 0)]))
             users
             = (Response 201 (toDict user), AList.update uuid user users) \<and>
           property (toDict user) ''age'' = Num 0 \<and> age user = Num 0 \<and>
           name user = Str ''Ann'' \<and> email user = Str ''ann@x.com'' \<and>
           serve (POST_users uuid now1 now2
                    (Obj [(''name'', Str ''Ann''), (''email'', Str ''ann@x.com'')])) users
             = (Response 201 (toDict user0), AList.update uuid user0 users) \<and>
           age user0 = Null \<and> age user0 \<noteq> age user"
proof -
  let ?d = "Obj [(''name'', Str ''Ann''), (''email'', Str ''ann@x.com''), (''age'', Num 0)]"
  let ?nd = "Obj [(''name'', Str ''Ann''), (''email'', Str ''ann@x.com'')]"
  let ?u = "User_new uuid now1 now2 (Str ''Ann'') (Str ''ann@x.com'') (Num 0)"
  let ?nu = "User_new uuid now1 now2 (Str ''Ann'') (Str ''ann@x.com'') Undefined"
  note nodup = no_stored_email [OF assms]
  have "post_users uuid now1 now2 ?d users =
          (Inr (Response 201 (toDict ?u)), AList.update uuid ?u users)"
    using nodup validateUserData_ann
    by (simp add: post_users_def no_data_def User_new_def Let_def)
  then have 1: "serve (POST_users uuid now1 now2 ?d) users =
          (Response 201 (toDict ?u), AList.update uuid ?u users)"
    by (simp add: serve_def route_def)
  have "post_users uuid now1 now2 ?nd users =
          (Inr (Response 201 (toDict ?nu)), AList.update uuid ?nu users)"
    using nodup validateUserData_ann_no_age
    by (simp add: post_users_def no_data_def User_new_def Let_def)
  then have 2: "serve (POST_users uuid now1 now2 ?nd) users =
          (Response 201 (toDict ?nu), AList.update uuid ?nu users)"
    by (simp add: serve_def route_def)
  from 1 2 show ?thesis
    by (intro exI [of _ ?u] exI [of _ ?nu]) (simp add: User_new_def toDict_def default_null_def)
qed

text \<open>
  Witness for C7: the store holds Bo, whose email is another one.
\<close>

theorem post_age_zero_witness:
  "(\<exists>user user0.
      serve (POST_users ''6ec0bd7f-11c0-43da-975e-2a8ad9ebae0b'' ''2024-05-01T10:00:05.000Z''
               ''2024-05-01T10:00:05.001Z''
               (Obj [(''name'', Str ''Ann''), (''email'', Str ''ann@x.com''), (''age'', Num 0)]))
        [(''1b9d6bcd-bbfd-4b2d-9b5d-ab8dfbbd4bed'',
          \<lparr>user_id = ''1b9d6bcd-bbfd-4b2d-9b5d-ab8dfbbd4bed'', name = Str ''Bo'',
           email = Str ''bo@x.com'', age = Null, created_at = ''2024-05-01T10:00:00.000Z'',
           updated_at = ''2024-05-01T10:00:00.000Z''\<rparr>)]
        = (Response 201 (toDict user),
           AList.update ''6ec0bd7f-11c0-43da-975e-2a8ad9ebae0b'' user
             [(''1b9d6bcd-bbfd-4b2d-9b5d-ab8dfbbd4bed'',
               \<lparr>user_id = ''1b9d6bcd-bbfd-4b2d-9b5d-ab8dfbbd4bed'', name = Str ''Bo'',
                email = Str ''bo@x.com'', age = Null, created_at = ''2024-05-01T10:00:00.000Z'',
                updated_at = ''2024-05-01T10:00:00.000Z''\<rparr>)]) \<and>
      property (toDict user) ''age'' = Num 0 \<and> age user = Num 0 \<and>
      name user = Str ''Ann'' \<and> email user = Str ''ann@x.com'' \<and>
      serve (POST_users ''6ec0bd7f-11c0-43da-975e-2a8ad9ebae0b'' ''2024-05-01T10:00:05.000Z''
               ''2024-05-01T10:00:05.001Z''
               (Obj [(''name'', Str ''Ann''), (''email'', Str ''ann@x.com'')]))
        [(''1b9d6bcd-bbfd-4b2d-9b5d-ab8dfbbd4bed'',
          \<lparr>user_id = ''1b9d6bcd-bbfd-4b2d-9b5d-ab8dfbbd4bed'', name = Str ''Bo'',
           email = Str ''bo@x.com'', age = Null, created_at = ''2024-05-01T10:00:00.000Z'',
           updated_at = ''2024-05-01T10:00:00.000Z''\<rparr>)]
        = (Response 201 (toDict user0),
           AList.update ''6ec0bd7f-11c0-43da-975e-2a8ad9ebae0b'' user0
             [(''1b9d6bcd-bbfd-4b2d-9b5d-ab8dfbbd4bed'',
               \<lparr>user_id = ''1b9d6bcd-bbfd-4b2d-9b5d-ab8dfbbd4bed'', name = Str ''Bo'',
                email = Str ''bo@x.com'', age = Null, created_at = ''2024-05-01T10:00:00.000Z'',
                updated_at = ''2024-05-01T10:00:00.000Z''\<rparr>)]) \<and>
      age user0 = Null \<and> age user0 \<noteq> age user)"
proof -
  let ?users = "[(''1b9d6bcd-bbfd-4b2d-9b5d-ab8dfbbd4bed'',
          \<lparr>user_id = ''1b9d6bcd-bbfd-4b2d-9b5d-ab8dfbbd4bed'', name = Str ''Bo'',
           email = Str ''bo@x.com'', age = Null, created_at = ''2024-05-01T10:00:00.000Z'',
           updated_at = ''2024-05-01T10:00:00.000Z''\<rparr>)]"
  have h: "\<forall>user \<in> set (map snd ?users). email user \<noteq> Str ''ann@x.com''" by simp
  from post_age_zero [OF h] show ?thesis by blast
qed





text \<open>
  A falsy name or email, of whatever type, does not throw: with \<open>requireAll\<close> it is
  reported as required, and POST answers 400 with the list.
\<close>

lemma falsy_name_required:
  assumes "\<not> truthy (property data ''name'')" and "validateUserData data True = Inr errors"
  shows "''Name is required'' \<in> set errors"
proof -
  from assms(2) obtain ns es as where
    n: "name_check (property data ''name'') True [] = Inr ns" and errs: "errors = ns @ es @ as"
    unfolding validateUserData_split by blast
  from n assms(1) have "ns = [''Name is required'']" by (simp add: name_check_def)
  with errs show ?thesis by simp
qed

lemma falsy_email_required:
  assumes "\<not> truthy (property data ''email'')" and "validateUserData data True = Inr errors"
  shows "''Email is required'' \<in> set errors"
proof -
  from assms(2) obtain ns es as where
    e: "email_check (property data ''email'') True [] = Inr es" and errs: "errors = ns @ es @ as"
    unfolding validateUserData_split by blast
  from e assms(1) have "es = [''Email is required'']" by (simp add: email_check_def)
  with errs show ?thesis by simp
qed

lemma post_users_falsy_field:
  assumes "\<not> no_data data" and "validateUserData data True = Inr errors"
    and "\<not> truthy (property data ''name'') \<or> \<not> truthy (property data ''email'')"
  shows "serve (POST_users uuid now1 now2 data) users =
           (Response 400 (Obj [(''errors'', Arr (map Str errors))]), users)"
proof -
  have "errors \<noteq> []"
    using assms(3) falsy_name_required [OF _ assms(2)] falsy_email_required [OF _ assms(2)]
    by auto
  then show ?thesis using assms(1,2) by (simp add: serve_def route_def post_users_def)
qed

text \<open>
  For an id that is neither stored nor a property of \<^verbatim>\<open>Object.prototype\<close>, PUT is
  answered 404 whatever the body is.
\<close>

lemma put_user_not_found:
  assumes "map_of users userId = None" and "\<not> List.member Object_prototype_keys userId"
  shows "serve (PUT_user userId now data) users =
           (Response 404 (Obj [(''error'', Str ''User not found'')]), users)"
  using assms by (simp add: serve_def route_def put_user_def users_get_def error_body_def)

text \<open>
  C9 on the code. \<^verbatim>\<open>constructor\<close> is not the id of a stored user, and
  \<^verbatim>\<open>users['constructor']\<close> is the inherited function all the same: PUT on it is
  answered 400 for the empty body and 500 for a body that passes validation, not 404.
\<close>

theorem put_prototype_key_not_404:
  "map_of ([] :: store) ''constructor'' = None \<and>
   serve (PUT_user ''constructor'' ''2024-05-01T10:00:05.000Z'' (Obj [])) [] =
     (Response 400 (Obj [(''error'', Str ''No data provided'')]), []) \<and>
   serve (PUT_user ''constructor'' ''2024-05-01T10:00:05.000Z'' (Obj [(''age'', Num 5)])) [] =
     (Response 500 (Obj [(''error'', Str ''Internal server error'')]), [])"
  by code_simp

text \<open>
  C1 on the code. After POST of Ann, PUT with the body \<^verbatim>\<open>{"name":""}\<close> is answered
  200 and the stored name is the empty string; POST answers the same name with 400.
\<close>

theorem put_accepts_empty_name:
  "serve_all
     [POST_users ''1b9d6bcd-bbfd-4b2d-9b5d-ab8dfbbd4bed'' ''2024-05-01T10:00:00.000Z''
        ''2024-05-01T10:00:00.000Z'' (Obj [(''name'', Str ''Ann''), (''email'', Str ''ann@x.com'')]),
      PUT_user ''1b9d6bcd-bbfd-4b2d-9b5d-ab8dfbbd4bed'' ''2024-05-01T10:00:05.000Z''
        (Obj [(''name'', Str [])]),
      POST_users ''6ec0bd7f-11c0-43da-975e-2a8ad9ebae0b'' ''2024-05-01T10:00:07.000Z''
        ''2024-05-01T10:00:07.000Z'' (Obj [(''name'', Str []), (''email'', Str ''bo@x.com'')])] []
   = ([Response 201
         (Obj [(''id'', Str ''1b9d6bcd-bbfd-4b2d-9b5d-ab8dfbbd4bed''), (''name'', Str ''Ann''),
               (''email'', Str ''ann@x.com''), (''age'', Null),
               (''created_at'', Str ''2024-05-01T10:00:00.000Z''),
               (''updated_at'', Str ''2024-05-01T10:00:00.000Z'')]),
       Response 200
         (Obj [(''id'', Str ''1b9d6bcd-bbfd-4b2d-9b5d-ab8dfbbd4bed''), (''name'', Str []),
               (''email'', Str ''ann@x.com''), (''age'', Null),
               (''created_at'', Str ''2024-05-01T10:00:00.000Z''),
               (''updated_at'', Str ''2024-05-01T10:00:05.000Z'')]),
       Response 400 (Obj [(''errors'', Arr [Str ''Name is required''])])],
      [(''1b9d6bcd-bbfd-4b2d-9b5d-ab8dfbbd4bed'',
        \<lparr>user_id = ''1b9d6bcd-bbfd-4b2d-9b5d-ab8dfbbd4bed'', name = Str [],
         email = Str ''ann@x.com'', age = Null, created_at = ''2024-05-01T10:00:00.000Z'',
         updated_at = ''2024-05-01T10:00:05.000Z''\<rparr>)])"
  by code_simp

text \<open>
  C2 on the code. After POST of Ann and of Bo, PUT with the body \<^verbatim>\<open>{"email":""}\<close> on
  each of them is answered 200, and the two stored users have the same email, the empty
  string.
\<close>

theorem put_accepts_duplicate_empty_email:
  "serve_all
     [POST_users ''1b9d6bcd-bbfd-4b2d-9b5d-ab8dfbbd4bed'' ''2024-05-01T10:00:00.000Z''
        ''2024-05-01T10:00:00.000Z'' (Obj [(''name'', Str ''Ann''), (''email'', Str ''ann@x.com'')]),
      POST_users ''6ec0bd7f-11c0-43da-975e-2a8ad9ebae0b'' ''2024-05-01T10:00:01.000Z''
        ''2024-05-01T10:00:01.000Z'' (Obj [(''name'', Str ''Bo''), (''email'', Str ''bo@x.com'')]),
      PUT_user ''1b9d6bcd-bbfd-4b2d-9b5d-ab8dfbbd4bed'' ''2024-05-01T10:00:05.000Z''
        (Obj [(''email'', Str [])]),
      PUT_user ''6ec0bd7f-11c0-43da-975e-2a8ad9ebae0b'' ''2024-05-01T10:00:06.000Z''
        (Obj [(''email'', Str [])])] []
   = ([Response 201
         (Obj [(''id'', Str ''1b9d6bcd-bbfd-4b2d-9b5d-ab8dfbbd4bed''), (''name'', Str ''Ann''),
               (''email'', Str ''ann@x.com''), (''age'', Null),
               (''created_at'', Str ''2024-05-01T10:00:00.000Z''),
               (''updated_at'', Str ''2024-05-01T10:00:00.000Z'')]),
       Response 201
         (Obj [(''id'', Str ''6ec0bd7f-11c0-43da-975e-2a8ad9ebae0b''), (''name'', Str ''Bo''),
               (''email'', Str ''bo@x.com''), (''age'', Null),
               (''created_at'', Str ''2024-05-01T10:00:01.000Z''),
               (''updated_at'', Str ''2024-05-01T10:00:01.000Z'')]),
       Response 200
         (Obj [(''id'', Str ''1b9d6bcd-bbfd-4b2d-9b5d-ab8dfbbd4bed''), (''name'', Str ''Ann''),
               (''email'', Str []), (''age'', Null),
               (''created_at'', Str ''2024-05-01T10:00:00.000Z''),
               (''updated_at'', Str ''2024-05-01T10:00:05.000Z'')]),
       Response 200
         (Obj [(''id'', Str ''6ec0bd7f-11c0-43da-975e-2a8ad9ebae0b''), (''name'', Str ''Bo''),
               (''email'', Str []), (''age'', Null),
               (''created_at'', Str ''2024-05-01T10:00:01.000Z''),
               (''updated_at'', Str ''2024-05-01T10:00:06.000Z'')])],
      [(''1b9d6bcd-bbfd-4b2d-9b5d-ab8dfbbd4bed'',
        \<lparr>user_id = ''1b9d6bcd-bbfd-4b2d-9b5d-ab8dfbbd4bed'', name = Str ''Ann'',
         email = Str [], age = Null, created_at = ''2024-05-01T10:00:00.000Z'',
         updated_at = ''2024-05-01T10:00:05.000Z''\<rparr>),
       (''6ec0bd7f-11c0-43da-975e-2a8ad9ebae0b'',
        \<lparr>user_id = ''6ec0bd7f-11c0-43da-975e-2a8ad9ebae0b'', name = Str ''Bo'',
         email = Str [], age = Null, created_at = ''2024-05-01T10:00:01.000Z'',
         updated_at = ''2024-05-01T10:00:06.000Z''\<rparr>)])"
  by code_simp

end
